theory Spec2Isabelle
  imports Complex_Main "HOL-Library.Word"
begin

unbundle bit_operations_syntax

section \<open>JavaScript values used by the similarity engine\<close>

text \<open>
  A JavaScript number is a double. Finite values are idealised as rationals (the rounding
  of \<open>/\<close> and \<open>*\<close> is not modelled); the three non-finite values are kept, because
  \<open>hammingDistance\<close> returns \<open>Infinity\<close> and the arithmetic of \<open>findSimilar\<close> is
  applied to it. Signed zero is not modelled: every divisor below is a length times 6.
\<close>

datatype jsnum = Num rat | PosInfinity | NegInfinity | NaN

fun js_sub :: "jsnum \<Rightarrow> jsnum \<Rightarrow> jsnum" where
  "js_sub (Num a) (Num b) = Num (a - b)"
| "js_sub NaN _ = NaN"
| "js_sub _ NaN = NaN"
| "js_sub PosInfinity PosInfinity = NaN"
| "js_sub NegInfinity NegInfinity = NaN"
| "js_sub PosInfinity _ = PosInfinity"
| "js_sub NegInfinity _ = NegInfinity"
| "js_sub (Num a) PosInfinity = NegInfinity"
| "js_sub (Num a) NegInfinity = PosInfinity"

fun js_div :: "jsnum \<Rightarrow> jsnum \<Rightarrow> jsnum" where
  "js_div (Num a) (Num b) =
     (if b \<noteq> 0 then Num (a / b)
      else if 0 < a then PosInfinity else if a < 0 then NegInfinity else NaN)"
| "js_div NaN _ = NaN"
| "js_div _ NaN = NaN"
| "js_div PosInfinity (Num b) = (if 0 \<le> b then PosInfinity else NegInfinity)"
| "js_div NegInfinity (Num b) = (if 0 \<le> b then NegInfinity else PosInfinity)"
| "js_div (Num a) _ = Num 0"
| "js_div _ _ = NaN"

fun js_mul :: "jsnum \<Rightarrow> jsnum \<Rightarrow> jsnum" where
  "js_mul (Num a) (Num b) = Num (a * b)"
| "js_mul NaN _ = NaN"
| "js_mul _ NaN = NaN"
| "js_mul PosInfinity (Num b) =
     (if 0 < b then PosInfinity else if b < 0 then NegInfinity else NaN)"
| "js_mul NegInfinity (Num b) =
     (if 0 < b then NegInfinity else if b < 0 then PosInfinity else NaN)"
| "js_mul (Num a) PosInfinity =
     (if 0 < a then PosInfinity else if a < 0 then NegInfinity else NaN)"
| "js_mul (Num a) NegInfinity =
     (if 0 < a then NegInfinity else if a < 0 then PosInfinity else NaN)"
| "js_mul PosInfinity PosInfinity = PosInfinity"
| "js_mul NegInfinity NegInfinity = PosInfinity"
| "js_mul _ _ = NegInfinity"

fun js_ge :: "jsnum \<Rightarrow> jsnum \<Rightarrow> bool" where
  "js_ge (Num a) (Num b) = (b \<le> a)"
| "js_ge NaN _ = False"
| "js_ge _ NaN = False"
| "js_ge PosInfinity _ = True"
| "js_ge _ NegInfinity = True"
| "js_ge _ _ = False"

text \<open>
  \<open>Number.prototype.toFixed(2)\<close>: the multiple of 1/100 nearest to the value, the larger
  magnitude on a tie. The source passes the resulting decimal string to a NUMERIC column
  and to \<open>parseFloat\<close>; the model keeps the number the string denotes.
\<close>

definition round2 :: "rat \<Rightarrow> rat" where
  "round2 x = (if 0 \<le> x then of_int \<lfloor>x * 100 + 1 / 2\<rfloor> / 100
               else - (of_int \<lfloor>- x * 100 + 1 / 2\<rfloor> / 100))"

fun toFixed2 :: "jsnum \<Rightarrow> jsnum" where
  "toFixed2 (Num x) = Num (round2 x)"
| "toFixed2 v = v"

text \<open>
  Strings are lists of 8-bit characters, one per UTF-16 code unit of the JavaScript string
  (fingerprints are ASCII). \<open>String.prototype.trim\<close> strips white space and line
  terminators from both ends; these are the ones below U+0100.
\<close>

definition is_js_space :: "char \<Rightarrow> bool" where
  "is_js_space c = (of_char c \<in> {9, 10, 11, 12, 13, 32, 160 :: nat})"

definition trim :: "string \<Rightarrow> string" where
  "trim s = rev (dropWhile is_js_space (rev (dropWhile is_js_space s)))"

text \<open>\<open>(a || '')\<close>: \<open>null\<close> and \<open>undefined\<close> (here \<open>None\<close>) and the empty string give \<open>''\<close>.\<close>

fun or_empty :: "string option \<Rightarrow> string" where
  "or_empty None = []"
| "or_empty (Some s) = s"

subsection \<open>\<open>Buffer.from(s, 'base64')\<close>\<close>

text \<open>
  Node's decoder is lenient: it accepts the standard and the URL-safe alphabet, skips every
  character outside them, stops at the first \<open>=\<close>, and turns the 6-bit values it has read
  into as many whole bytes as they hold (four characters give three bytes, three give two,
  two give one, a single one gives none). It never throws on a string.
\<close>

definition unbase64 :: "char \<Rightarrow> nat option" where
  "unbase64 c =
     (let n = (of_char c :: nat) in
      if 65 \<le> n \<and> n \<le> 90 then Some (n - 65)
      else if 97 \<le> n \<and> n \<le> 122 then Some (n - 71)
      else if 48 \<le> n \<and> n \<le> 57 then Some (n + 4)
      else if n = 43 \<or> n = 45 then Some 62
      else if n = 47 \<or> n = 95 then Some 63
      else None)"

fun sextets_bytes :: "nat list \<Rightarrow> 8 word list" where
  "sextets_bytes (a # b # c # d # rest) =
     of_nat (a * 4 + b div 16) # of_nat ((b mod 16) * 16 + c div 4) #
     of_nat ((c mod 4) * 64 + d) # sextets_bytes rest"
| "sextets_bytes [a, b, c] = [of_nat (a * 4 + b div 16), of_nat ((b mod 16) * 16 + c div 4)]"
| "sextets_bytes [a, b] = [of_nat (a * 4 + b div 16)]"
| "sextets_bytes _ = []"

definition Buffer_from_base64 :: "string \<Rightarrow> 8 word list" where
  "Buffer_from_base64 s =
     sextets_bytes (List.map_filter unbase64 (takeWhile (\<lambda>c. c \<noteq> CHR ''='') s))"

section \<open>similarity.service.js\<close>

definition SIMILARITY_THRESHOLD :: rat where
  "SIMILARITY_THRESHOLD = 70"

text \<open>
  The inner loop of \<open>hammingDistance\<close>:
  \<^verbatim>\<open>while (xor) { distance += xor & 1; xor >>= 1; }\<close>
  on the XOR of two bytes (a value below 256, so the 32-bit shift is a shift of the byte).
\<close>

function count_bits :: "8 word \<Rightarrow> nat \<Rightarrow> nat" where
  "count_bits x distance =
     (if x \<noteq> 0 then count_bits (drop_bit 1 x) (distance + unat (x AND 1)) else distance)"
  by pat_completeness auto
termination
proof (relation "measure (\<lambda>(x, d). unat x)")
  show "wf (measure (\<lambda>(x :: 8 word, d :: nat). unat x))"
    by simp
next
  fix x :: "8 word" and distance :: nat
  assume "x \<noteq> 0"
  then have "0 < unat x"
    by (simp add: unat_gt_0)
  then have "unat x div 2 < unat x"
    by simp
  moreover have "unat (drop_bit 1 x) = drop_bit 1 (unat x)"
    by (rule unat_drop_bit_eq)
  moreover have "drop_bit 1 (unat x) = unat x div 2"
    by (simp add: drop_bit_eq_div)
  ultimately show "((drop_bit 1 x, distance + unat (x AND 1)), (x, distance))
               \<in> measure (\<lambda>(x, d). unat x)"
    by simp
qed

declare count_bits.simps [simp del]

text \<open>The \<open>for (let i = 0; i < minLen; i++)\<close> loop; \<open>i < minLen\<close> keeps both reads in range.\<close>

function xor_loop :: "8 word list \<Rightarrow> 8 word list \<Rightarrow> nat \<Rightarrow> nat \<Rightarrow> nat \<Rightarrow> nat" where
  "xor_loop bin1 bin2 minLen i distance =
     (if i < minLen
      then xor_loop bin1 bin2 minLen (i + 1) (count_bits ((bin1 ! i) XOR (bin2 ! i)) distance)
      else distance)"
  by pat_completeness auto
termination
  by (relation "measure (\<lambda>(bin1, bin2, minLen, i, distance). minLen - i)") auto

declare xor_loop.simps [simp del]

text \<open>
  \<open>hammingDistance(a, b)\<close>. The \<open>catch\<close> branch of the source is unreachable for string
  arguments, since the decoder does not throw.
\<close>

definition hammingDistance :: "string option \<Rightarrow> string option \<Rightarrow> jsnum" where
  "hammingDistance a b =
     (let fp1 = trim (or_empty a); fp2 = trim (or_empty b) in
      if fp1 = [] \<or> fp2 = [] then PosInfinity
      else
        let bin1 = Buffer_from_base64 fp1;
            bin2 = Buffer_from_base64 fp2;
            minLen = min (length bin1) (length bin2);
            distance = nat \<bar>int (length bin1) - int (length bin2)\<bar> * 8
        in Num (of_nat (xor_loop bin1 bin2 minLen 0 distance)))"

text \<open>The two lines of \<open>findSimilar\<close> that turn a distance into a percentage.\<close>

definition maxBits :: "string \<Rightarrow> string \<Rightarrow> nat" where
  "maxBits fingerprint perceptual_hash = max (length fingerprint) (length perceptual_hash) * 6"

definition similarityPercent :: "string \<Rightarrow> string \<Rightarrow> jsnum" where
  "similarityPercent fingerprint perceptual_hash =
     (let distance = hammingDistance (Some fingerprint) (Some perceptual_hash);
          maxBits = maxBits fingerprint perceptual_hash
      in js_mul (js_div (js_sub (Num (of_nat maxBits)) distance) (Num (of_nat maxBits))) (Num 100))"

subsection \<open>The distance in the words of the specification\<close>

definition popcount :: "8 word \<Rightarrow> nat" where
  "popcount w = length (filter (bit w) [0..<8])"

definition spec_distance :: "8 word list \<Rightarrow> 8 word list \<Rightarrow> nat" where
  "spec_distance bin1 bin2 =
     nat \<bar>int (length bin1) - int (length bin2)\<bar> * 8 +
     sum_list (map (\<lambda>(x, y). popcount (x XOR y)) (zip bin1 bin2))"

section \<open>The stores (schema.sql, the Supabase buckets, the job queue, the SSE registry)\<close>

text \<open>
  Identifiers produced by \<open>gen_random_uuid()\<close> are modelled as the values of a counter, so
  that each is fresh. The columns \<open>created_at\<close> and the keys of \<open>upload_attempts\<close> and
  \<open>similarity_warnings\<close> are left out; \<open>duration_seconds\<close> keeps the text handed to
  \<open>parseFloat\<close>. Every statement sent through \<open>pool.query\<close> is a function of the
  tables below and is executed atomically; a lost database connection is outside the model,
  as is a failing \<open>fingerprintQueue.add\<close>. The errors the source tests for and rethrows
  (of the read stream, of the bucket operations, of the extractor) are branches of it.
\<close>

type_synonym uuid = nat

record audio_file_row =
  audio_id :: uuid
  content_hash :: string
  perceptual_hash :: "string option"
  storage_path :: string
  original_filename :: string
  file_size :: nat
  mime_type :: string
  duration_seconds :: "string option"
  similarity_status :: string

record upload_attempt_row =
  attempt_hash :: string
  was_duplicate :: bool

record warning_row =
  audio_id_a :: uuid
  audio_id_b :: uuid
  filename_a :: string
  filename_b :: string
  similarity_percent :: jsnum

text \<open>
  One record for everything the program shares: the three tables, the two buckets (as
  association lists from object name to bytes), the BullMQ queue, the in-memory map
  \<open>warningSubscribers\<close> (artifact id to the connections listening on it) and the events
  written to the connections so far.
\<close>

record world =
  audio_files :: "audio_file_row list"
  upload_attempts :: "upload_attempt_row list"
  similarity_warnings :: "warning_row list"
  next_uuid :: uuid
  temp_uploads :: "(string \<times> 8 word list) list"
  audio_files_bucket :: "(string \<times> 8 word list) list"
  fingerprintQueue :: "(uuid \<times> string) list"
  warningSubscribers :: "uuid \<Rightarrow> nat list"
  sent :: "(nat \<times> warning_row) list"

definition boot :: world where
  "boot = \<lparr>audio_files = [], upload_attempts = [], similarity_warnings = [], next_uuid = 0,
           temp_uploads = [], audio_files_bucket = [], fingerprintQueue = [],
           warningSubscribers = (\<lambda>_. []), sent = []\<rparr>"

text \<open>
  \<^verbatim>\<open>INSERT INTO audio_files (...) VALUES (...) ON CONFLICT (content_hash) DO NOTHING RETURNING id\<close>:
  one statement, executed atomically by the database. The result is the list of returned
  ids (\<open>result.rows\<close>), empty on conflict.
\<close>

definition insert_audio_file ::
    "string \<Rightarrow> string \<Rightarrow> string \<Rightarrow> nat \<Rightarrow> string \<Rightarrow> world \<Rightarrow> uuid list \<times> world" where
  "insert_audio_file contentHash permanentFileName originalFilename fileSize mimeType w =
     (if contentHash \<in> set (map content_hash (audio_files w)) then ([], w)
      else ([next_uuid w],
            w\<lparr>audio_files := audio_files w @
                 [\<lparr>audio_id = next_uuid w, content_hash = contentHash, perceptual_hash = None,
                   storage_path = permanentFileName, original_filename = originalFilename,
                   file_size = fileSize, mime_type = mimeType, duration_seconds = None,
                   similarity_status = ''pending''\<rparr>],
              next_uuid := Suc (next_uuid w)\<rparr>))"

definition insert_upload_attempt :: "string \<Rightarrow> bool \<Rightarrow> world \<Rightarrow> world" where
  "insert_upload_attempt contentHash wasDuplicate w =
     w\<lparr>upload_attempts := upload_attempts w @
          [\<lparr>attempt_hash = contentHash, was_duplicate = wasDuplicate\<rparr>]\<rparr>"

text \<open>
  \<^verbatim>\<open>INSERT INTO similarity_warnings (...) VALUES (...) ON CONFLICT (audio_id_a, audio_id_b) DO NOTHING\<close>
  against \<^verbatim>\<open>UNIQUE(audio_id_a, audio_id_b)\<close>: the conflict is on the pair of columns, in
  this order. The two foreign keys hold at every call the program makes (the subject's row
  has been read by \<open>process\<close>, the candidate's by the scan, and no row is ever deleted).
\<close>

definition insert_warning :: "warning_row \<Rightarrow> world \<Rightarrow> world" where
  "insert_warning row w =
     (if (audio_id_a row, audio_id_b row)
           \<in> set (map (\<lambda>r. (audio_id_a r, audio_id_b r)) (similarity_warnings w))
      then w
      else w\<lparr>similarity_warnings := similarity_warnings w @ [row]\<rparr>)"

subsection \<open>sse.controller.js: notifyWarning\<close>

text \<open>
  The event goes to every connection registered under the first id, then to every one
  under the second. A \<open>res.write\<close> that throws is caught and logged inside the loop and
  changes nothing else, so it is not a branch of the model. The timestamp is left out.
\<close>

definition notifyWarning :: "uuid \<Rightarrow> uuid \<Rightarrow> string \<Rightarrow> string \<Rightarrow> jsnum \<Rightarrow> world \<Rightarrow> world" where
  "notifyWarning audioIdA audioIdB filenameA filenameB percent w =
     (let warning = \<lparr>audio_id_a = audioIdA, audio_id_b = audioIdB, filename_a = filenameA,
                      filename_b = filenameB, similarity_percent = percent\<rparr>
      in w\<lparr>sent := sent w @
               concat (map (\<lambda>audioId. map (\<lambda>res. (res, warning)) (warningSubscribers w audioId))
                           [audioIdA, audioIdB])\<rparr>)"

subsection \<open>similarity.service.js: findSimilar\<close>

record candidate =
  cand_id :: uuid
  cand_perceptual_hash :: string
  cand_original_filename :: string

text \<open>
  \<^verbatim>\<open>SELECT id, perceptual_hash, original_filename FROM audio_files
   WHERE id != $1 AND perceptual_hash IS NOT NULL\<close>
  The statement has no ORDER BY; the model returns the rows in the table's list order.
\<close>

definition select_candidates :: "uuid \<Rightarrow> world \<Rightarrow> candidate list" where
  "select_candidates audioId w =
     List.map_filter
       (\<lambda>r. case perceptual_hash r of
              None \<Rightarrow> None
            | Some h \<Rightarrow>
                if audio_id r \<noteq> audioId
                then Some \<lparr>cand_id = audio_id r, cand_perceptual_hash = h,
                           cand_original_filename = original_filename r\<rparr>
                else None)
       (audio_files w)"

record similar =
  similar_id :: uuid
  similar_filename :: string
  similarity :: jsnum

text \<open>The \<open>for (const row of result.rows)\<close> loop, with its \<open>return\<close> inside the \<open>if\<close>.\<close>

fun scan_rows :: "uuid \<Rightarrow> string \<Rightarrow> string \<Rightarrow> candidate list \<Rightarrow> world \<Rightarrow> similar option \<times> world" where
  "scan_rows audioId fingerprint filename [] w = (None, w)"
| "scan_rows audioId fingerprint filename (row # rows) w =
     (let percent = similarityPercent fingerprint (cand_perceptual_hash row) in
      if js_ge percent (Num SIMILARITY_THRESHOLD)
      then
        (Some \<lparr>similar_id = cand_id row, similar_filename = cand_original_filename row,
                similarity = toFixed2 percent\<rparr>,
         notifyWarning audioId (cand_id row) filename (cand_original_filename row)
           (toFixed2 percent)
           (insert_warning
              \<lparr>audio_id_a = audioId, audio_id_b = cand_id row, filename_a = filename,
                filename_b = cand_original_filename row, similarity_percent = toFixed2 percent\<rparr>
              w))
      else scan_rows audioId fingerprint filename rows w)"

definition findSimilar :: "uuid \<Rightarrow> string \<Rightarrow> string \<Rightarrow> world \<Rightarrow> similar option \<times> world" where
  "findSimilar audioId fingerprint filename w =
     scan_rows audioId fingerprint filename (select_candidates audioId w) w"

section \<open>fingerprint.service.js\<close>

datatype error =
    StreamError string
  | UploadError string
  | MoveError string
  | DownloadError string
  | AudioNotFound
  | ExecError string
  | FingerprintNotGenerated

text \<open>\<open>String.prototype.split\<close> on a one-character separator, and \<open>startsWith\<close>.\<close>

fun split_on :: "char \<Rightarrow> string \<Rightarrow> string list" where
  "split_on sep [] = [[]]"
| "split_on sep (c # cs) =
     (if c = sep then [] # split_on sep cs
      else (case split_on sep cs of
              [] \<Rightarrow> [[c]]
            | piece # pieces \<Rightarrow> (c # piece) # pieces))"

definition startsWith :: "string \<Rightarrow> string \<Rightarrow> bool" where
  "startsWith s prefix = (take (length prefix) s = prefix)"

text \<open>
  \<open>line.split('=')[1]\<close>. Both lines it is applied to start with a name and \<open>=\<close>, so the
  second piece exists; the last equation is not reached there.
\<close>

fun second_piece :: "string list \<Rightarrow> string" where
  "second_piece (_ # piece # _) = piece"
| "second_piece _ = []"

text \<open>
  What \<open>execFile(fpcalcPath, [localFilePath], callback)\<close> hands to the callback: an error,
  or the standard output of the extractor. The extractor itself is an external program.
\<close>

datatype exec_result = ExecFailed string | Stdout string

definition runFpcalc :: "exec_result \<Rightarrow> error + (string \<times> string option)" where
  "runFpcalc r =
     (case r of
        ExecFailed msg \<Rightarrow> Inl (ExecError msg)
      | Stdout stdout \<Rightarrow>
          (let lines = split_on (CHR 0x0A) stdout;
               fingerprintLine = find (\<lambda>line. startsWith line ''FINGERPRINT='') lines;
               durationLine = find (\<lambda>line. startsWith line ''DURATION='') lines
           in case fingerprintLine of
                None \<Rightarrow> Inl FingerprintNotGenerated
              | Some fl \<Rightarrow>
                  Inr (second_piece (split_on CHR ''='' fl),
                       map_option (\<lambda>dl. second_piece (split_on CHR ''='' dl)) durationLine)))"

text \<open>
  What the collaborators answer during one run of \<open>process\<close>: the error of the bucket
  download, if any, and the outcome of the extractor.
\<close>

record analysis_env =
  download_error :: "string option"
  fpcalc :: exec_result

definition downloadFromSupabase :: "analysis_env \<Rightarrow> string \<Rightarrow> world \<Rightarrow> error + 8 word list" where
  "downloadFromSupabase env storagePath w =
     (case download_error env of
        Some msg \<Rightarrow> Inl (DownloadError msg)
      | None \<Rightarrow>
          (case map_of (audio_files_bucket w) storagePath of
             None \<Rightarrow> Inl (DownloadError ''Object not found'')
           | Some buffer \<Rightarrow> Inr buffer))"

definition update_fingerprint :: "string \<Rightarrow> string option \<Rightarrow> uuid \<Rightarrow> world \<Rightarrow> world" where
  "update_fingerprint fingerprint duration audioId w =
     w\<lparr>audio_files :=
         map (\<lambda>r. if audio_id r = audioId
                  then r\<lparr>perceptual_hash := Some fingerprint, duration_seconds := duration,
                         similarity_status := ''processed''\<rparr>
                  else r)
             (audio_files w)\<rparr>"

definition update_status :: "string \<Rightarrow> uuid \<Rightarrow> world \<Rightarrow> world" where
  "update_status status audioId w =
     w\<lparr>audio_files :=
         map (\<lambda>r. if audio_id r = audioId then r\<lparr>similarity_status := status\<rparr> else r)
             (audio_files w)\<rparr>"

text \<open>
  \<open>process(audioId)\<close>: the result is the error thrown (\<open>Inl\<close>) or normal completion, with the
  stores as the run leaves them. The temporary file on the worker's disk, written by
  \<open>downloadFromSupabase\<close> and removed in \<open>finally\<close>, is not part of the stores.
\<close>

definition process :: "analysis_env \<Rightarrow> uuid \<Rightarrow> world \<Rightarrow> (error + unit) \<times> world" where
  "process env audioId w =
     (case filter (\<lambda>r. audio_id r = audioId) (audio_files w) of
        [] \<Rightarrow> (Inl AudioNotFound, w)
      | row # _ \<Rightarrow>
          (case downloadFromSupabase env (storage_path row) w of
             Inl e \<Rightarrow> (Inl e, w)
           | Inr buffer \<Rightarrow>
               (case runFpcalc (fpcalc env) of
                  Inl e \<Rightarrow> (Inl e, w)
                | Inr (fingerprint, duration) \<Rightarrow>
                    (let w1 = update_fingerprint fingerprint duration audioId w;
                         (similar, w2) = findSimilar audioId fingerprint (original_filename row) w1
                     in case similar of
                          None \<Rightarrow> (Inr (), w2)
                        | Some _ \<Rightarrow> (Inr (), update_status ''similar_found'' audioId w2)))))"

section \<open>upload.utils.js\<close>

definition isSupportedAudio :: "string \<Rightarrow> bool" where
  "isSupportedAudio mimeType =
     (mimeType \<in> set
        [''audio/mpeg'', ''audio/wav'', ''audio/ogg'', ''audio/m4a'', ''audio/aac'', ''audio/flac'',
         ''audio/x-wav'', ''audio/x-ogg'', ''audio/x-m4a'', ''audio/x-aac'', ''audio/x-flac'',
         ''audio/x-mpeg''])"

text \<open>
  \<open>req.file\<close> as multer leaves it: the declared MIME type and name, the size, and the bytes
  of the local file at \<open>file.path\<close>.
\<close>

record upload_file =
  mimetype :: string
  size_bytes :: nat
  originalname :: string
  content :: "8 word list"

text \<open>
  What the collaborators answer during one run of \<open>processUpload\<close>: the error of the read
  stream, the value of \<open>crypto.randomUUID()\<close>, and the \<open>error\<close> fields of the three
  bucket operations (\<open>None\<close> for success).
\<close>

record upload_env =
  stream_error :: "string option"
  randomUUID :: string
  uploadError :: "string option"
  deleteError :: "string option"
  moveError :: "string option"

text \<open>
  \<open>computeFileHash\<close> feeds every chunk of the stream to SHA-256 and resolves with the hex
  digest, or rejects with the stream's error. SHA-256 is Node's; it is the parameter
  \<open>sha256\<close> of every definition that hashes.
\<close>

definition computeFileHash :: "(8 word list \<Rightarrow> string) \<Rightarrow> upload_env \<Rightarrow> upload_file \<Rightarrow> error + string" where
  "computeFileHash sha256 env file =
     (case stream_error env of
        Some msg \<Rightarrow> Inl (StreamError msg)
      | None \<Rightarrow> Inr (sha256 (content file)))"

section \<open>upload.service.js\<close>

datatype upload_result = Duplicate | Accepted uuid

definition tempFileName :: "upload_env \<Rightarrow> upload_file \<Rightarrow> string" where
  "tempFileName env file = randomUUID env @ ''_'' @ originalname file"

definition permanentFileName :: "string \<Rightarrow> upload_file \<Rightarrow> string" where
  "permanentFileName contentHash file = contentHash @ ''_'' @ originalname file"

definition temp_upload :: "string \<Rightarrow> 8 word list \<Rightarrow> world \<Rightarrow> world" where
  "temp_upload name fileBuffer w = w\<lparr>temp_uploads := temp_uploads w @ [(name, fileBuffer)]\<rparr>"

definition temp_remove :: "string \<Rightarrow> world \<Rightarrow> world" where
  "temp_remove name w = w\<lparr>temp_uploads := filter (\<lambda>entry. fst entry \<noteq> name) (temp_uploads w)\<rparr>"

definition temp_move :: "string \<Rightarrow> string \<Rightarrow> 8 word list \<Rightarrow> world \<Rightarrow> world" where
  "temp_move name destination fileBuffer w =
     w\<lparr>temp_uploads := filter (\<lambda>entry. fst entry \<noteq> name) (temp_uploads w),
       audio_files_bucket := audio_files_bucket w @ [(destination, fileBuffer)]\<rparr>"

definition queue_add :: "uuid \<Rightarrow> string \<Rightarrow> world \<Rightarrow> world" where
  "queue_add audioId filename w = w\<lparr>fingerprintQueue := fingerprintQueue w @ [(audioId, filename)]\<rparr>"

text \<open>
  \<open>processUpload(file)\<close> run without interruption: the value returned (\<open>Inr\<close>) or the error
  thrown (\<open>Inl\<close>), with the stores as the run leaves them. The local file removed in
  \<open>finally\<close> is not part of the stores.
\<close>

definition processUpload ::
    "(8 word list \<Rightarrow> string) \<Rightarrow> upload_env \<Rightarrow> upload_file \<Rightarrow> world \<Rightarrow> (error + upload_result) \<times> world" where
  "processUpload sha256 env file w =
     (case computeFileHash sha256 env file of
        Inl e \<Rightarrow> (Inl e, w)
      | Inr contentHash \<Rightarrow>
          (case uploadError env of
             Some msg \<Rightarrow> (Inl (UploadError msg), w)
           | None \<Rightarrow>
               (let w1 = temp_upload (tempFileName env file) (content file) w;
                    (rows, w2) = insert_audio_file contentHash (permanentFileName contentHash file)
                                   (originalname file) (size_bytes file) (mimetype file) w1
                in case rows of
                     [] \<Rightarrow>
                       (let w3 = (case deleteError env of
                                    None \<Rightarrow> temp_remove (tempFileName env file) w2
                                  | Some _ \<Rightarrow> w2)
                        in (Inr Duplicate, insert_upload_attempt contentHash True w3))
                   | audioId # _ \<Rightarrow>
                       (case moveError env of
                          Some msg \<Rightarrow> (Inl (MoveError msg), w2)
                        | None \<Rightarrow>
                            (let w3 = temp_move (tempFileName env file)
                                        (permanentFileName contentHash file) (content file) w2;
                                 w4 = insert_upload_attempt contentHash False w3
                             in (Inr (Accepted audioId),
                                 queue_add audioId (originalname file) w4))))))"

section \<open>upload.controller.js\<close>

datatype body = ErrorBody string | DuplicateBody string | AcceptedBody uuid

text \<open>\<open>res.status(n).json(body)\<close>, or \<open>next(err)\<close>, which leaves the answer to the error handler.\<close>

datatype response = Json nat body | Next error

definition uploadAudio ::
    "(8 word list \<Rightarrow> string) \<Rightarrow> upload_env \<Rightarrow> upload_file option \<Rightarrow> world \<Rightarrow> response \<times> world" where
  "uploadAudio sha256 env req_file w =
     (case req_file of
        None \<Rightarrow> (Json 400 (ErrorBody ''No file uploaded''), w)
      | Some file \<Rightarrow>
          if \<not> isSupportedAudio (mimetype file)
          then (Json 400 (ErrorBody ''Unsupported audio format''), w)
          else
            (case processUpload sha256 env file w of
               (Inl err, w') \<Rightarrow> (Next err, w')
             | (Inr Duplicate, w') \<Rightarrow> (Json 409 (DuplicateBody ''Exact duplicate detected''), w')
             | (Inr (Accepted audioId), w') \<Rightarrow> (Json 201 (AcceptedBody audioId), w')))"

section \<open>Concurrent calls of processUpload\<close>

text \<open>
  Node runs one call until its next \<open>await\<close>; between two of them other calls may run.
  A call of \<open>processUpload\<close> is therefore a sequence of atomic steps, one for each awaited
  operation, and \<open>stage\<close> is the position of a call in that sequence, with the local
  variable \<open>audioId\<close> once it is bound. \<open>contentHash\<close> and the two file names are
  functions of the call's file and environment.
\<close>

datatype stage =
    AtHash
  | AtTempUpload
  | AtInsert
  | AtRemove
  | AtDuplicateAttempt
  | AtMove uuid
  | AtAttempt uuid
  | AtEnqueue uuid
  | Finished "error + upload_result"

definition step ::
    "(8 word list \<Rightarrow> string) \<Rightarrow> upload_env \<Rightarrow> upload_file \<Rightarrow> stage \<Rightarrow> world \<Rightarrow> stage \<times> world" where
  "step sha256 env file st w =
     (let contentHash = sha256 (content file) in
      case st of
        AtHash \<Rightarrow>
          (case computeFileHash sha256 env file of
             Inl e \<Rightarrow> (Finished (Inl e), w)
           | Inr _ \<Rightarrow> (AtTempUpload, w))
      | AtTempUpload \<Rightarrow>
          (case uploadError env of
             Some msg \<Rightarrow> (Finished (Inl (UploadError msg)), w)
           | None \<Rightarrow> (AtInsert, temp_upload (tempFileName env file) (content file) w))
      | AtInsert \<Rightarrow>
          (case insert_audio_file contentHash (permanentFileName contentHash file)
                  (originalname file) (size_bytes file) (mimetype file) w of
             ([], w') \<Rightarrow> (AtRemove, w')
           | (audioId # _, w') \<Rightarrow> (AtMove audioId, w'))
      | AtRemove \<Rightarrow>
          (case deleteError env of
             None \<Rightarrow> (AtDuplicateAttempt, temp_remove (tempFileName env file) w)
           | Some _ \<Rightarrow> (AtDuplicateAttempt, w))
      | AtDuplicateAttempt \<Rightarrow> (Finished (Inr Duplicate), insert_upload_attempt contentHash True w)
      | AtMove audioId \<Rightarrow>
          (case moveError env of
             Some msg \<Rightarrow> (Finished (Inl (MoveError msg)), w)
           | None \<Rightarrow>
               (AtAttempt audioId,
                temp_move (tempFileName env file) (permanentFileName contentHash file)
                  (content file) w))
      | AtAttempt audioId \<Rightarrow> (AtEnqueue audioId, insert_upload_attempt contentHash False w)
      | AtEnqueue audioId \<Rightarrow>
          (Finished (Inr (Accepted audioId)), queue_add audioId (originalname file) w)
      | Finished r \<Rightarrow> (Finished r, w))"

record call =
  call_env :: upload_env
  call_file :: upload_file
  call_stage :: stage

definition start_call :: "upload_env \<Rightarrow> upload_file \<Rightarrow> call" where
  "start_call env file = \<lparr>call_env = env, call_file = file, call_stage = AtHash\<rparr>"

text \<open>
  A schedule names, step by step, the call that runs next. Every interleaving of the calls
  is the run of some schedule.
\<close>

fun run_schedule ::
    "(8 word list \<Rightarrow> string) \<Rightarrow> nat list \<Rightarrow> world \<times> call list \<Rightarrow> world \<times> call list" where
  "run_schedule sha256 [] cfg = cfg"
| "run_schedule sha256 (i # sched) (w, calls) =
     (if i < length calls
      then
        (let c = calls ! i;
             (st', w') = step sha256 (call_env c) (call_file c) (call_stage c) w
         in run_schedule sha256 sched (w', calls[i := c\<lparr>call_stage := st'\<rparr>]))
      else run_schedule sha256 sched (w, calls))"



text \<open>How many rows of the ledger carry a digest.\<close>

definition rows_with_hash :: "string \<Rightarrow> world \<Rightarrow> nat" where
  "rows_with_hash d w = length (filter (\<lambda>r. content_hash r = d) (audio_files w))"







section \<open>Runs of the whole service\<close>

text \<open>
  The events that change the stores: an upload request, a run of the worker on an
  artifact, a listener connecting to or leaving the stream of an artifact.
\<close>

datatype action =
    Upload upload_env "upload_file option"
  | Analyse analysis_env uuid
  | Subscribe uuid nat
  | Disconnect uuid nat

fun perform :: "(8 word list \<Rightarrow> string) \<Rightarrow> action \<Rightarrow> world \<Rightarrow> world" where
  "perform sha256 (Upload env req_file) w = snd (uploadAudio sha256 env req_file w)"
| "perform sha256 (Analyse env audioId) w = snd (process env audioId w)"
| "perform sha256 (Subscribe audioId res) w =
     w\<lparr>warningSubscribers := (warningSubscribers w)(audioId := warningSubscribers w audioId @ [res])\<rparr>"
| "perform sha256 (Disconnect audioId res) w =
     w\<lparr>warningSubscribers := (warningSubscribers w)(audioId := remove1 res (warningSubscribers w audioId))\<rparr>"

definition run_actions :: "(8 word list \<Rightarrow> string) \<Rightarrow> action list \<Rightarrow> world \<Rightarrow> world" where
  "run_actions sha256 acts w = foldl (\<lambda>w a. perform sha256 a w) w acts"

section \<open>Concrete inputs\<close>

text \<open>
  The inputs of the instances and runs evaluated below. \<open>digest_stub\<close> stands in for
  SHA-256 there (every general theorem holds for any hash function): it maps equal byte
  sequences to equal strings, which is all the instances use.
\<close>

definition digest_stub :: "8 word list \<Rightarrow> string" where
  "digest_stub = map (\<lambda>b. if b < 4 then CHR ''a'' else CHR ''b'')"

definition song_x :: upload_file where
  "song_x = \<lparr>mimetype = ''audio/mpeg'', size_bytes = 3, originalname = ''x.mp3'',
             content = [1, 2, 3]\<rparr>"

definition song_y :: upload_file where
  "song_y = \<lparr>mimetype = ''audio/flac'', size_bytes = 2, originalname = ''y.flac'',
             content = [4, 5]\<rparr>"

definition all_succeed :: "string \<Rightarrow> upload_env" where
  "all_succeed u = \<lparr>stream_error = None, randomUUID = u, uploadError = None,
                    deleteError = None, moveError = None\<rparr>"

definition extractor_prints :: "string \<Rightarrow> analysis_env" where
  "extractor_prints fp =
     \<lparr>download_error = None,
       fpcalc = Stdout (''DURATION=3'' @ [CHR 0x0A] @ ''FINGERPRINT='' @ fp @ [CHR 0x0A])\<rparr>"

definition two_uploads :: world where
  "two_uploads =
     run_actions digest_stub
       [Upload (all_succeed ''u1'') (Some song_x), Upload (all_succeed ''u2'') (Some song_y)] boot"

definition song_x_renamed :: upload_file where
  "song_x_renamed = \<lparr>mimetype = ''audio/x-wav'', size_bytes = 99, originalname = ''renamed.wav'',
                     content = [1, 2, 3]\<rparr>"

definition video_clip :: upload_file where
  "video_clip = \<lparr>mimetype = ''video/mp4'', size_bytes = 3, originalname = ''clip.mp4'',
                 content = [1, 2, 3]\<rparr>"


section \<open>The distance and the percentage\<close>

subsection \<open>The bit loop counts the set bits\<close>

lemma bits_shift: "length (filter (bit (x :: 8 word)) [0..<Suc n]) =
    of_bool (bit x 0) + length (filter (bit (drop_bit 1 x)) [0..<n])"
proof -
  have "[0..<Suc n] = 0 # map Suc [0..<n]"
    by (simp add: upt_conv_Cons map_Suc_upt del: upt_Suc)
  then show ?thesis
    by (simp add: filter_map o_def bit_drop_bit_eq del: upt_Suc)
qed

lemma and_one_unat: "unat ((x::8 word) AND 1) = of_bool (bit x 0)"
proof -
  have "x AND 1 = x mod 2"
    by (rule and_one_eq)
  moreover have "x mod 2 = of_bool (odd x)"
    by (rule mod_2_eq_odd)
  ultimately show ?thesis
    by (simp add: bit_0)
qed

lemma unat_half: "unat (drop_bit 1 (x::8 word)) = unat x div 2"
proof -
  have "unat (drop_bit 1 x) = drop_bit 1 (unat x)"
    by (rule unat_drop_bit_eq)
  then show ?thesis
    by (simp add: drop_bit_eq_div)
qed

lemma count_bits_below:
  "unat x < 2 ^ n \<Longrightarrow> count_bits x d = d + length (filter (bit x) [0..<n])"
proof (induction n arbitrary: x d)
  case 0
  then have "x = 0" by (simp add: unat_eq_0)
  then show ?case by (simp add: count_bits.simps)
next
  case (Suc n)
  show ?case
  proof (cases "x = 0")
    case True
    then show ?thesis by (simp add: count_bits.simps)
  next
    case False
    have "unat (drop_bit 1 x) = unat x div 2"
      by (rule unat_half)
    with Suc.prems have "unat (drop_bit 1 x) < 2 ^ n" by simp
    from Suc.IH [OF this] False show ?thesis
      by (subst count_bits.simps) (simp add: bits_shift and_one_unat del: upt_Suc)
  qed
qed

lemma count_bits_popcount: "count_bits x d = d + popcount x"
proof -
  have "unat x < 2 ^ 8"
    using unsigned_less [of x] by simp
  then show ?thesis
    unfolding popcount_def by (rule count_bits_below)
qed

lemma xor_loop_sum:
  "i \<le> minLen \<Longrightarrow>
   xor_loop bin1 bin2 minLen i d = d + (\<Sum>k = i..<minLen. popcount ((bin1 ! k) XOR (bin2 ! k)))"
proof (induction bin1 bin2 minLen i d rule: xor_loop.induct)
  case (1 bin1 bin2 minLen i distance)
  show ?case
  proof (cases "i < minLen")
    case True
    with "1.IH" have "xor_loop bin1 bin2 minLen (i + 1) (count_bits ((bin1 ! i) XOR (bin2 ! i)) distance)
        = count_bits ((bin1 ! i) XOR (bin2 ! i)) distance
          + (\<Sum>k = i + 1..<minLen. popcount ((bin1 ! k) XOR (bin2 ! k)))"
      by simp
    with True show ?thesis
      by (subst xor_loop.simps) (simp add: count_bits_popcount sum.atLeast_Suc_lessThan)
  next
    case False
    with "1.prems" show ?thesis
      by (subst xor_loop.simps) simp
  qed
qed

lemma zip_sum_nth:
  "(\<Sum>k = 0..<min (length xs) (length ys). f (xs ! k) (ys ! k))
     = sum_list (map (\<lambda>(x, y). f x y) (zip xs ys))"
proof -
  have "sum_list (map (\<lambda>(x, y). f x y) (zip xs ys))
          = (\<Sum>k = 0..<length (zip xs ys). (\<lambda>(x, y). f x y) (zip xs ys ! k))"
    by (simp add: sum_list_sum_nth)
  also have "\<dots> = (\<Sum>k = 0..<min (length xs) (length ys). f (xs ! k) (ys ! k))"
    by (rule sum.cong) simp_all
  finally show ?thesis by simp
qed

lemma xor_loop_spec:
  "xor_loop bin1 bin2 (min (length bin1) (length bin2)) 0
     (nat \<bar>int (length bin1) - int (length bin2)\<bar> * 8) = spec_distance bin1 bin2"
  unfolding spec_distance_def
  by (simp add: xor_loop_sum zip_sum_nth [where f = "\<lambda>x y. popcount (x XOR y)"])

lemma spec_distance_commute: "spec_distance bin1 bin2 = spec_distance bin2 bin1"
proof -
  have "zip bin2 bin1 = map (\<lambda>(x, y). (y, x)) (zip bin1 bin2)"
    by (rule zip_commute)
  then have "map (\<lambda>(x, y). popcount (x XOR y)) (zip bin2 bin1)
        = map (\<lambda>(x, y). popcount (x XOR y)) (zip bin1 bin2)"
    by (simp add: case_prod_unfold xor.commute)
  then show ?thesis
    unfolding spec_distance_def by (simp add: abs_minus_commute)
qed

lemma hammingDistance_nonblank:
  "trim (or_empty a) \<noteq> [] \<Longrightarrow> trim (or_empty b) \<noteq> [] \<Longrightarrow>
   hammingDistance a b =
     Num (of_nat (spec_distance (Buffer_from_base64 (trim (or_empty a)))
                                (Buffer_from_base64 (trim (or_empty b)))))"
  unfolding hammingDistance_def by (simp add: Let_def xor_loop_spec)

lemma hammingDistance_blank:
  "trim (or_empty a) = [] \<or> trim (or_empty b) = [] \<Longrightarrow> hammingDistance a b = PosInfinity"
  unfolding hammingDistance_def by (auto simp add: Let_def)

lemma hammingDistance_commute: "hammingDistance a b = hammingDistance b a"
proof (cases "trim (or_empty a) = [] \<or> trim (or_empty b) = []")
  case True
  then show ?thesis
    by (auto simp add: hammingDistance_blank)
next
  case False
  then show ?thesis
    by (simp add: hammingDistance_nonblank spec_distance_commute [of "Buffer_from_base64 (trim (or_empty a))"])
qed

lemma maxBits_commute: "maxBits a b = maxBits b a"
  unfolding maxBits_def by (simp add: max.commute)

lemma length_trim: "length (trim s) \<le> length s"
proof -
  have "length (trim s) \<le> length (dropWhile is_js_space s)"
    unfolding trim_def using length_dropWhile_le [of is_js_space "rev (dropWhile is_js_space s)"] by simp
  also have "\<dots> \<le> length s"
    by (rule length_dropWhile_le)
  finally show ?thesis .
qed

lemma maxBits_pos: "trim a \<noteq> [] \<Longrightarrow> 0 < maxBits a b"
proof -
  assume "trim a \<noteq> []"
  then have "0 < length (trim a)" by simp
  with length_trim [of a] have "0 < length a" by linarith
  then show ?thesis
    unfolding maxBits_def by (simp add: less_max_iff_disj)
qed

text \<open>
  C3. For two fingerprints that are not blank (neither is empty or white space only, the
  one case \<open>hammingDistance\<close> answers before decoding), the distance computed is the
  absolute difference of the decoded byte lengths times 8 plus the number of set bits in
  the XOR of the overlapping byte prefix, \<open>maxBits\<close> is the larger of the two encoded
  string lengths times 6, and the percentage is \<open>(maxBits - distance) / maxBits * 100\<close>.
  This covers every pair in which both fingerprints decode to at least one byte.
\<close>

theorem similarity_formula:
  assumes "trim a \<noteq> []" and "trim b \<noteq> []"
  shows "hammingDistance (Some a) (Some b) =
           Num (of_nat (nat \<bar>int (length (Buffer_from_base64 (trim a)))
                             - int (length (Buffer_from_base64 (trim b)))\<bar> * 8
                        + sum_list (map (\<lambda>(x, y). popcount (x XOR y))
                                     (zip (Buffer_from_base64 (trim a))
                                          (Buffer_from_base64 (trim b))))))
         \<and> maxBits a b = max (length a) (length b) * 6
         \<and> similarityPercent a b =
             Num ((of_nat (maxBits a b)
                    - of_nat (spec_distance (Buffer_from_base64 (trim a))
                                            (Buffer_from_base64 (trim b))))
                  / of_nat (maxBits a b) * 100)"
proof -
  note nonblank = assms
  then have dist: "hammingDistance (Some a) (Some b) =
      Num (of_nat (spec_distance (Buffer_from_base64 (trim a)) (Buffer_from_base64 (trim b))))"
    by (simp add: hammingDistance_nonblank)
  from nonblank have "0 < maxBits a b"
    by (simp add: maxBits_pos)
  with dist have "similarityPercent a b =
      Num ((of_nat (maxBits a b)
             - of_nat (spec_distance (Buffer_from_base64 (trim a)) (Buffer_from_base64 (trim b))))
           / of_nat (maxBits a b) * 100)"
    unfolding similarityPercent_def by (simp add: Let_def)
  with dist show ?thesis
    by (simp add: spec_distance_def maxBits_def)
qed

theorem similarity_formula_witness:
  "trim ''AAAA'' \<noteq> [] \<and> trim ''AAAB'' \<noteq> []
   \<and> Buffer_from_base64 (trim ''AAAA'') = [0, 0, 0]
   \<and> Buffer_from_base64 (trim ''AAAB'') = [0, 0, 1]
   \<and> hammingDistance (Some ''AAAA'') (Some ''AAAB'') = Num 1
   \<and> maxBits ''AAAA'' ''AAAB'' = 24
   \<and> similarityPercent ''AAAA'' ''AAAB'' = Num (575 / 6)"
proof -
  have a: "Buffer_from_base64 (trim ''AAAA'') = [0, 0, 0]"
    by code_simp
  have b: "Buffer_from_base64 (trim ''AAAB'') = [0, 0, 1]"
    by code_simp
  have p: "popcount 0 = 0" "popcount 1 = 1"
    by code_simp+
  have d: "spec_distance [0, 0, 0] [0, 0, 1] = 1"
    by (simp add: spec_distance_def p)
  have t: "trim ''AAAA'' \<noteq> []" "trim ''AAAB'' \<noteq> []"
    by code_simp+
  from similarity_formula [OF t] t show ?thesis
    by (simp add: a b p d)
qed

text \<open>
  C5. The comparison is symmetric: exchanging subject and candidate changes neither the
  distance, nor \<open>maxBits\<close>, nor the percentage.
\<close>

theorem similarity_symmetric:
  "hammingDistance (Some a) (Some b) = hammingDistance (Some b) (Some a)
   \<and> maxBits a b = maxBits b a
   \<and> similarityPercent a b = similarityPercent b a"
proof -
  have "hammingDistance (Some a) (Some b) = hammingDistance (Some b) (Some a)"
    by (rule hammingDistance_commute)
  moreover have "maxBits a b = maxBits b a"
    by (rule maxBits_commute)
  ultimately show ?thesis
    unfolding similarityPercent_def by simp
qed




section \<open>The scan of findSimilar\<close>

lemma scan_rows_no_match:
  "\<forall>c \<in> set cs. \<not> js_ge (similarityPercent fp (cand_perceptual_hash c)) (Num SIMILARITY_THRESHOLD) \<Longrightarrow>
   scan_rows audioId fp filename cs w = (None, w)"
  by (induction cs) (simp_all add: Let_def)

lemma scan_rows_skip:
  "\<forall>c \<in> set pre. \<not> js_ge (similarityPercent fp (cand_perceptual_hash c)) (Num SIMILARITY_THRESHOLD) \<Longrightarrow>
   scan_rows audioId fp filename (pre @ cs) w = scan_rows audioId fp filename cs w"
  by (induction pre) (simp_all add: Let_def)

lemma scan_rows_hit:
  "js_ge (similarityPercent fp (cand_perceptual_hash c)) (Num SIMILARITY_THRESHOLD) \<Longrightarrow>
   scan_rows audioId fp filename (c # post) w =
     (Some \<lparr>similar_id = cand_id c, similar_filename = cand_original_filename c,
             similarity = toFixed2 (similarityPercent fp (cand_perceptual_hash c))\<rparr>,
      notifyWarning audioId (cand_id c) filename (cand_original_filename c)
        (toFixed2 (similarityPercent fp (cand_perceptual_hash c)))
        (insert_warning
           \<lparr>audio_id_a = audioId, audio_id_b = cand_id c, filename_a = filename,
             filename_b = cand_original_filename c,
             similarity_percent = toFixed2 (similarityPercent fp (cand_perceptual_hash c))\<rparr>
           w))"
  by (simp add: Let_def)

text \<open>
  C4. The scan returns the first candidate, in scan order, whose percentage is at least 70:
  when no candidate before \<open>c\<close> reaches the threshold and \<open>c\<close> does, the result is \<open>c\<close>
  with its percentage, and result and stores are the same whatever candidates follow
  \<open>c\<close> (they are not examined); a scan in which no candidate reaches the threshold
  returns \<open>null\<close> and leaves the stores as they were. The comparison is \<open>>=\<close>: 70 passes
  it, 69.99 does not.
\<close>

theorem first_match_wins:
  assumes "\<forall>r \<in> set pre.
             \<not> js_ge (similarityPercent fp (cand_perceptual_hash r)) (Num SIMILARITY_THRESHOLD)"
  shows "(js_ge (similarityPercent fp (cand_perceptual_hash c)) (Num SIMILARITY_THRESHOLD) \<longrightarrow>
            fst (scan_rows audioId fp filename (pre @ c # post) w) =
              Some \<lparr>similar_id = cand_id c, similar_filename = cand_original_filename c,
                     similarity = toFixed2 (similarityPercent fp (cand_perceptual_hash c))\<rparr>
            \<and> scan_rows audioId fp filename (pre @ c # post) w =
                scan_rows audioId fp filename (pre @ [c]) w)
         \<and> scan_rows audioId fp filename pre w = (None, w)
         \<and> findSimilar audioId fp filename w =
             scan_rows audioId fp filename (select_candidates audioId w) w
         \<and> js_ge (Num 70) (Num SIMILARITY_THRESHOLD)
         \<and> \<not> js_ge (Num (6999 / 100)) (Num SIMILARITY_THRESHOLD)"
proof -
  have "fst (scan_rows audioId fp filename (pre @ c # post) w) =
              Some \<lparr>similar_id = cand_id c, similar_filename = cand_original_filename c,
                     similarity = toFixed2 (similarityPercent fp (cand_perceptual_hash c))\<rparr>
        \<and> scan_rows audioId fp filename (pre @ c # post) w =
                scan_rows audioId fp filename (pre @ [c]) w"
    if hit: "js_ge (similarityPercent fp (cand_perceptual_hash c)) (Num SIMILARITY_THRESHOLD)"
  proof -
    from assms have "scan_rows audioId fp filename (pre @ c # post) w =
        scan_rows audioId fp filename (c # post) w"
      by (rule scan_rows_skip)
    moreover from assms have "scan_rows audioId fp filename (pre @ [c]) w =
        scan_rows audioId fp filename [c] w"
      by (rule scan_rows_skip)
    ultimately show ?thesis
      using hit by (simp only: scan_rows_hit fst_conv simp_thms)
  qed
  moreover from assms have "scan_rows audioId fp filename pre w = (None, w)"
    by (rule scan_rows_no_match)
  moreover have "js_ge (Num 70) (Num SIMILARITY_THRESHOLD)"
    "\<not> js_ge (Num (6999 / 100)) (Num SIMILARITY_THRESHOLD)"
    by (simp_all add: SIMILARITY_THRESHOLD_def)
  ultimately show ?thesis
    unfolding findSimilar_def by blast
qed

theorem first_match_wins_witness:
  "\<not> js_ge (similarityPercent ''AAAAAAAAAA'' ''//_HAAAAAA'') (Num SIMILARITY_THRESHOLD)
   \<and> js_ge (similarityPercent ''AAAAAAAAAA'' ''///AAAAAAA'') (Num SIMILARITY_THRESHOLD)
   \<and> fst (scan_rows 9 ''AAAAAAAAAA'' ''nine.mp3''
        ([\<lparr>cand_id = 1, cand_perceptual_hash = ''//_HAAAAAA'', cand_original_filename = ''one.mp3''\<rparr>] @
         \<lparr>cand_id = 2, cand_perceptual_hash = ''///AAAAAAA'', cand_original_filename = ''two.mp3''\<rparr> #
         [\<lparr>cand_id = 3, cand_perceptual_hash = ''AAAAAAAAAA'', cand_original_filename = ''three.mp3''\<rparr>])
        boot)
       = Some \<lparr>similar_id = 2, similar_filename = ''two.mp3'', similarity = Num 70\<rparr>
   \<and> scan_rows 9 ''AAAAAAAAAA'' ''nine.mp3''
        [\<lparr>cand_id = 1, cand_perceptual_hash = ''//_HAAAAAA'', cand_original_filename = ''one.mp3''\<rparr>]
        boot = (None, boot)"
proof -
  define c2 where "c2 = \<lparr>cand_id = 2, cand_perceptual_hash = ''///AAAAAAA'',
                         cand_original_filename = ''two.mp3''\<rparr>"
  have miss: "\<forall>r \<in> set [\<lparr>cand_id = 1, cand_perceptual_hash = ''//_HAAAAAA'',
                   cand_original_filename = ''one.mp3''\<rparr>].
       \<not> js_ge (similarityPercent ''AAAAAAAAAA'' (cand_perceptual_hash r))
            (Num SIMILARITY_THRESHOLD)"
    by code_simp
  have hit: "js_ge (similarityPercent ''AAAAAAAAAA'' ''///AAAAAAA'') (Num SIMILARITY_THRESHOLD)"
    by code_simp
  have stored: "toFixed2 (similarityPercent ''AAAAAAAAAA'' ''///AAAAAAA'') = Num 70"
    by code_simp
  have fields: "cand_id c2 = 2" "cand_perceptual_hash c2 = ''///AAAAAAA''"
    "cand_original_filename c2 = ''two.mp3''"
    by (simp_all add: c2_def)
  note inst = first_match_wins [OF miss, of c2 9 "''nine.mp3''"
      "[\<lparr>cand_id = 3, cand_perceptual_hash = ''AAAAAAAAAA'', cand_original_filename = ''three.mp3''\<rparr>]"
      boot, unfolded fields stored]
  from inst hit have
    "fst (scan_rows 9 ''AAAAAAAAAA'' ''nine.mp3''
        ([\<lparr>cand_id = 1, cand_perceptual_hash = ''//_HAAAAAA'', cand_original_filename = ''one.mp3''\<rparr>] @
         c2 #
         [\<lparr>cand_id = 3, cand_perceptual_hash = ''AAAAAAAAAA'', cand_original_filename = ''three.mp3''\<rparr>])
        boot)
       = Some \<lparr>similar_id = 2, similar_filename = ''two.mp3'', similarity = Num 70\<rparr>"
    by blast
  moreover from inst have "scan_rows 9 ''AAAAAAAAAA'' ''nine.mp3''
        [\<lparr>cand_id = 1, cand_perceptual_hash = ''//_HAAAAAA'', cand_original_filename = ''one.mp3''\<rparr>]
        boot = (None, boot)"
    by blast
  moreover from miss
  have "\<not> js_ge (similarityPercent ''AAAAAAAAAA'' ''//_HAAAAAA'') (Num SIMILARITY_THRESHOLD)"
    by simp
  ultimately show ?thesis
    using hit unfolding c2_def by blast
qed

section \<open>What is stored in similarity_warnings\<close>







subsection \<open>Which operations write which table\<close>

lemma warnings_notifyWarning [simp]:
  "similarity_warnings (notifyWarning a b fa fb pct w) = similarity_warnings w"
  by (simp add: notifyWarning_def Let_def)


lemma warnings_update_fingerprint [simp]:
  "similarity_warnings (update_fingerprint fp d a w) = similarity_warnings w"
  by (simp add: update_fingerprint_def)

lemma warnings_update_status [simp]:
  "similarity_warnings (update_status st a w) = similarity_warnings w"
  by (simp add: update_status_def)

lemma warnings_processUpload [simp]:
  "similarity_warnings (snd (processUpload sha256 env file w)) = similarity_warnings w"
  by (simp add: processUpload_def computeFileHash_def insert_audio_file_def temp_upload_def
      temp_remove_def temp_move_def insert_upload_attempt_def queue_add_def Let_def
      split: option.splits sum.splits list.splits prod.splits)

lemma warnings_uploadAudio [simp]:
  "similarity_warnings (snd (uploadAudio sha256 env req_file w)) = similarity_warnings w"
proof (cases "processUpload sha256 env (the req_file) w")
  case (Pair r w')
  then have "similarity_warnings w' = similarity_warnings w"
    using warnings_processUpload [of sha256 env "the req_file" w] by simp
  with Pair show ?thesis
    by (auto simp add: uploadAudio_def split: option.splits sum.splits upload_result.splits)
qed


lemma process_world:
  "snd (process env audioId w) = w
   \<or> (\<exists>fp d filename.
         snd (process env audioId w)
           = snd (findSimilar audioId fp filename (update_fingerprint fp d audioId w))
         \<or> snd (process env audioId w)
           = update_status ''similar_found'' audioId
               (snd (findSimilar audioId fp filename (update_fingerprint fp d audioId w))))"
proof (cases "filter (\<lambda>r. audio_id r = audioId) (audio_files w)")
  case Nil
  then show ?thesis
    by (simp add: process_def)
next
  case (Cons row rest)
  show ?thesis
  proof (cases "downloadFromSupabase env (storage_path row) w")
    case (Inl e)
    with Cons show ?thesis
      by (simp add: process_def)
  next
    case (Inr buffer)
    show ?thesis
    proof (cases "runFpcalc (fpcalc env)")
      case (Inl e)
      with Cons Inr show ?thesis
        by (simp add: process_def)
    next
      case fp: (Inr pair)
      obtain fingerprint duration where pair: "pair = (fingerprint, duration)"
        by (cases pair)
      obtain similar w2 where found:
        "findSimilar audioId fingerprint (original_filename row)
           (update_fingerprint fingerprint duration audioId w) = (similar, w2)"
        by (cases "findSimilar audioId fingerprint (original_filename row)
                     (update_fingerprint fingerprint duration audioId w)")
      from Cons Inr fp pair found
      have "snd (process env audioId w)
              = (case similar of None \<Rightarrow> w2 | Some _ \<Rightarrow> update_status ''similar_found'' audioId w2)"
        by (simp add: process_def split: option.splits)
      moreover from found have "w2 = snd (findSimilar audioId fingerprint (original_filename row)
           (update_fingerprint fingerprint duration audioId w))"
        by simp
      ultimately have "snd (process env audioId w)
            = snd (findSimilar audioId fingerprint (original_filename row)
                     (update_fingerprint fingerprint duration audioId w))
          \<or> snd (process env audioId w)
            = update_status ''similar_found'' audioId
                (snd (findSimilar audioId fingerprint (original_filename row)
                        (update_fingerprint fingerprint duration audioId w)))"
        by (cases similar) simp_all
      then show ?thesis
        by blast
    qed
  qed
qed





text \<open>
  C2, at the input where the code departs from it. Both artifacts have their fingerprint
  stored (each analysis run has finished its UPDATE) before either run scans. The scan
  for artifact 0 finds artifact 1 and stores the pair (0, 1); the scan for artifact 1
  finds artifact 0 and stores (1, 0), which does not conflict with (0, 1) under
  \<open>UNIQUE(audio_id_a, audio_id_b)\<close>: the unordered pair has two rows. A second scan
  for artifact 0 inserts (0, 1) again and changes nothing. The same two rows arise without
  any overlap of runs when the analysis of artifact 0 is run again after that of
  artifact 1.
\<close>

theorem reversed_pair_stored_twice:
  "similarity_warnings
     (snd (findSimilar 1 ''///AAAAAAA'' ''y.flac''
        (snd (findSimilar 0 ''AAAAAAAAAA'' ''x.mp3''
           (update_fingerprint ''///AAAAAAA'' (Some ''3'') 1
              (update_fingerprint ''AAAAAAAAAA'' (Some ''3'') 0 two_uploads))))))
     = [\<lparr>audio_id_a = 0, audio_id_b = 1, filename_a = ''x.mp3'', filename_b = ''y.flac'',
         similarity_percent = Num 70\<rparr>,
        \<lparr>audio_id_a = 1, audio_id_b = 0, filename_a = ''y.flac'', filename_b = ''x.mp3'',
         similarity_percent = Num 70\<rparr>]
   \<and> similarity_warnings
     (snd (findSimilar 0 ''AAAAAAAAAA'' ''x.mp3''
        (snd (findSimilar 0 ''AAAAAAAAAA'' ''x.mp3''
           (update_fingerprint ''///AAAAAAA'' (Some ''3'') 1
              (update_fingerprint ''AAAAAAAAAA'' (Some ''3'') 0 two_uploads))))))
     = [\<lparr>audio_id_a = 0, audio_id_b = 1, filename_a = ''x.mp3'', filename_b = ''y.flac'',
         similarity_percent = Num 70\<rparr>]
   \<and> similarity_warnings
     (run_actions digest_stub
        [Analyse (extractor_prints ''AAAAAAAAAA'') 0, Analyse (extractor_prints ''///AAAAAAA'') 1,
         Analyse (extractor_prints ''AAAAAAAAAA'') 0]
        two_uploads)
     = [\<lparr>audio_id_a = 1, audio_id_b = 0, filename_a = ''y.flac'', filename_b = ''x.mp3'',
         similarity_percent = Num 70\<rparr>,
        \<lparr>audio_id_a = 0, audio_id_b = 1, filename_a = ''x.mp3'', filename_b = ''y.flac'',
         similarity_percent = Num 70\<rparr>]"
  by code_simp

section \<open>Analysis runs that fail\<close>

lemma runFpcalc_fails:
  assumes "(\<exists>msg. r = ExecFailed msg)
           \<or> (\<exists>stdout. r = Stdout stdout
                \<and> find (\<lambda>line. startsWith line ''FINGERPRINT='') (split_on (CHR 0x0A) stdout) = None)"
  shows "\<exists>e. runFpcalc r = Inl e"
  using assms by (auto simp add: runFpcalc_def Let_def)

lemma process_extractor_error:
  assumes "runFpcalc (fpcalc env) = Inl e"
  shows "\<exists>e'. process env audioId w = (Inl e', w)"
  using assms
  by (simp add: process_def split: list.splits sum.splits)

text \<open>
  C7. When the extractor fails (\<open>execFile\<close> reports an error, or the output has no line
  starting with \<open>FINGERPRINT=\<close>), \<open>process\<close> throws and has written nothing: the
  stores are exactly as before the run, so the artifact's row keeps its null
  \<open>perceptual_hash\<close> and its status \<open>pending\<close>, no warning has been inserted and no
  event sent.
\<close>

theorem extractor_failure_leaves_stores:
  assumes "(\<exists>msg. fpcalc env = ExecFailed msg)
           \<or> (\<exists>stdout. fpcalc env = Stdout stdout
                \<and> find (\<lambda>line. startsWith line ''FINGERPRINT='') (split_on (CHR 0x0A) stdout) = None)"
  shows "(\<exists>e. fst (process env audioId w) = Inl e)
         \<and> snd (process env audioId w) = w
         \<and> audio_files (snd (process env audioId w)) = audio_files w
         \<and> similarity_warnings (snd (process env audioId w)) = similarity_warnings w
         \<and> sent (snd (process env audioId w)) = sent w"
proof -
  from assms obtain e where "runFpcalc (fpcalc env) = Inl e"
    using runFpcalc_fails by blast
  then obtain e' where "process env audioId w = (Inl e', w)"
    using process_extractor_error by blast
  then show ?thesis
    by simp
qed

theorem extractor_failure_leaves_stores_witness:
  "fpcalc \<lparr>download_error = None, fpcalc = ExecFailed ''spawn ENOENT''\<rparr> = ExecFailed ''spawn ENOENT''
   \<and> fst (process \<lparr>download_error = None, fpcalc = ExecFailed ''spawn ENOENT''\<rparr> 0 two_uploads)
       = Inl (ExecError ''spawn ENOENT'')
   \<and> snd (process \<lparr>download_error = None, fpcalc = ExecFailed ''spawn ENOENT''\<rparr> 0 two_uploads)
       = two_uploads
   \<and> find (\<lambda>line. startsWith line ''FINGERPRINT='') (split_on (CHR 0x0A) ''DURATION=3'') = None
   \<and> fst (process \<lparr>download_error = None, fpcalc = Stdout ''DURATION=3''\<rparr> 0 two_uploads)
       = Inl FingerprintNotGenerated
   \<and> snd (process \<lparr>download_error = None, fpcalc = Stdout ''DURATION=3''\<rparr> 0 two_uploads)
       = two_uploads
   \<and> map (\<lambda>r. (audio_id r, perceptual_hash r, similarity_status r)) (audio_files two_uploads)
       = [(0, None, ''pending''), (1, None, ''pending'')]"
proof -
  have no_line:
    "find (\<lambda>line. startsWith line ''FINGERPRINT='') (split_on (CHR 0x0A) ''DURATION=3'') = None"
    by code_simp
  have "snd (process \<lparr>download_error = None, fpcalc = ExecFailed ''spawn ENOENT''\<rparr> 0 two_uploads)
       = two_uploads"
    using extractor_failure_leaves_stores
      [of "\<lparr>download_error = None, fpcalc = ExecFailed ''spawn ENOENT''\<rparr>" 0 two_uploads]
    by simp
  moreover have "snd (process \<lparr>download_error = None, fpcalc = Stdout ''DURATION=3''\<rparr> 0 two_uploads)
       = two_uploads"
    using extractor_failure_leaves_stores
      [of "\<lparr>download_error = None, fpcalc = Stdout ''DURATION=3''\<rparr>" 0 two_uploads] no_line
    by simp
  moreover have "fst (process \<lparr>download_error = None, fpcalc = ExecFailed ''spawn ENOENT''\<rparr> 0 two_uploads)
       = Inl (ExecError ''spawn ENOENT'')"
    by code_simp
  moreover have "fst (process \<lparr>download_error = None, fpcalc = Stdout ''DURATION=3''\<rparr> 0 two_uploads)
       = Inl FingerprintNotGenerated"
    by code_simp
  moreover have "map (\<lambda>r. (audio_id r, perceptual_hash r, similarity_status r)) (audio_files two_uploads)
       = [(0, None, ''pending''), (1, None, ''pending'')]"
    by code_simp
  ultimately show ?thesis
    using no_line by simp
qed

section \<open>Requests with an unsupported media type\<close>

text \<open>
  C8. An upload whose declared MIME type is none of the twelve listed ones is answered
  with status 400 and the stores are left exactly as they were. The answer is the same for
  every hash function and every behaviour of the collaborators: neither the digest nor any
  store is touched before the rejection.
\<close>

theorem unsupported_format_rejected:
  assumes "mimetype file \<notin> set [''audio/mpeg'', ''audio/wav'', ''audio/ogg'', ''audio/m4a'',
              ''audio/aac'', ''audio/flac'', ''audio/x-wav'', ''audio/x-ogg'', ''audio/x-m4a'',
              ''audio/x-aac'', ''audio/x-flac'', ''audio/x-mpeg'']"
  shows "uploadAudio sha256 env (Some file) w
           = (Json 400 (ErrorBody ''Unsupported audio format''), w)"
proof -
  from assms have "\<not> isSupportedAudio (mimetype file)"
    unfolding isSupportedAudio_def by (simp only: set_simps) blast
  then show ?thesis
    by (simp add: uploadAudio_def)
qed

theorem unsupported_format_rejected_witness:
  "mimetype video_clip \<notin> set [''audio/mpeg'', ''audio/wav'', ''audio/ogg'', ''audio/m4a'',
              ''audio/aac'', ''audio/flac'', ''audio/x-wav'', ''audio/x-ogg'', ''audio/x-m4a'',
              ''audio/x-aac'', ''audio/x-flac'', ''audio/x-mpeg'']
   \<and> uploadAudio digest_stub (all_succeed ''u1'') (Some video_clip) two_uploads
       = (Json 400 (ErrorBody ''Unsupported audio format''), two_uploads)"
proof -
  have unlisted: "mimetype video_clip \<notin> set [''audio/mpeg'', ''audio/wav'', ''audio/ogg'',
              ''audio/m4a'', ''audio/aac'', ''audio/flac'', ''audio/x-wav'', ''audio/x-ogg'',
              ''audio/x-m4a'', ''audio/x-aac'', ''audio/x-flac'', ''audio/x-mpeg'']"
    by (simp add: video_clip_def)
  from unsupported_format_rejected [OF unlisted, of digest_stub "all_succeed ''u1''" two_uploads]
    unlisted
  show ?thesis
    by (simp only: simp_thms)
qed

section \<open>The ledger and the admission decision\<close>

lemma audio_files_simps [simp]:
  "audio_files (temp_upload n b w) = audio_files w"
  "audio_files (temp_remove n w) = audio_files w"
  "audio_files (temp_move n dst b w) = audio_files w"
  "audio_files (insert_upload_attempt h dup w) = audio_files w"
  "audio_files (queue_add a f w) = audio_files w"
  "audio_files (notifyWarning ida idb fa fb pct w) = audio_files w"
  "audio_files (insert_warning row w) = audio_files w"
  by (simp_all add: temp_upload_def temp_remove_def temp_move_def insert_upload_attempt_def
      queue_add_def notifyWarning_def insert_warning_def Let_def)

lemma hashes_update [simp]:
  "map content_hash (audio_files (update_fingerprint fp d a w)) = map content_hash (audio_files w)"
  "map content_hash (audio_files (update_status st a w)) = map content_hash (audio_files w)"
  by (simp_all add: update_fingerprint_def update_status_def o_def)

lemma audio_files_scan_rows [simp]:
  "audio_files (snd (scan_rows audioId fp filename cs w)) = audio_files w"
  by (induction cs) (simp_all add: Let_def)

lemma hashes_process [simp]:
  "map content_hash (audio_files (snd (process env audioId w))) = map content_hash (audio_files w)"
  using process_world [of env audioId w]
  by (auto simp add: findSimilar_def)

lemma next_uuid_temp_upload [simp]: "next_uuid (temp_upload n b w) = next_uuid w"
  by (simp add: temp_upload_def)

lemma processUpload_result:
  "fst (processUpload sha256 env file w) =
     (case stream_error env of
        Some msg \<Rightarrow> Inl (StreamError msg)
      | None \<Rightarrow>
          (case uploadError env of
             Some msg \<Rightarrow> Inl (UploadError msg)
           | None \<Rightarrow>
               if sha256 (content file) \<in> set (map content_hash (audio_files w))
               then Inr Duplicate
               else (case moveError env of
                       Some msg \<Rightarrow> Inl (MoveError msg)
                     | None \<Rightarrow> Inr (Accepted (next_uuid w)))))"
proof (cases "stream_error env")
  case (Some msg)
  then show ?thesis
    by (simp add: processUpload_def computeFileHash_def)
next
  case no_stream_error: None
  show ?thesis
  proof (cases "uploadError env")
    case (Some msg)
    with no_stream_error show ?thesis
      by (simp add: processUpload_def computeFileHash_def)
  next
    case no_upload_error: None
    show ?thesis
    proof (cases "sha256 (content file) \<in> set (map content_hash (audio_files w))")
      case True
      with no_stream_error no_upload_error show ?thesis
        by (simp add: processUpload_def computeFileHash_def insert_audio_file_def Let_def)
    next
      case False
      with no_stream_error no_upload_error show ?thesis
        by (cases "moveError env")
           (simp_all add: processUpload_def computeFileHash_def insert_audio_file_def Let_def)
    qed
  qed
qed

lemma processUpload_ledger:
  "map content_hash (audio_files (snd (processUpload sha256 env file w))) =
     (if stream_error env = None \<and> uploadError env = None
         \<and> sha256 (content file) \<notin> set (map content_hash (audio_files w))
      then map content_hash (audio_files w) @ [sha256 (content file)]
      else map content_hash (audio_files w))"
proof (cases "stream_error env")
  case (Some msg)
  then show ?thesis
    by (simp add: processUpload_def computeFileHash_def)
next
  case no_stream_error: None
  show ?thesis
  proof (cases "uploadError env")
    case (Some msg)
    with no_stream_error show ?thesis
      by (simp add: processUpload_def computeFileHash_def)
  next
    case no_upload_error: None
    show ?thesis
    proof (cases "sha256 (content file) \<in> set (map content_hash (audio_files w))")
      case True
      with no_stream_error no_upload_error show ?thesis
        by (cases "deleteError env")
           (simp_all add: processUpload_def computeFileHash_def insert_audio_file_def Let_def)
    next
      case False
      with no_stream_error no_upload_error show ?thesis
        by (cases "moveError env")
           (simp_all add: processUpload_def computeFileHash_def insert_audio_file_def Let_def)
    qed
  qed
qed

lemma processUpload_hashes:
  "set (map content_hash (audio_files w))
     \<subseteq> set (map content_hash (audio_files (snd (processUpload sha256 env file w))))"
proof -
  have "map content_hash (audio_files (snd (processUpload sha256 env file w)))
          = map content_hash (audio_files w) @ [sha256 (content file)]
        \<or> map content_hash (audio_files (snd (processUpload sha256 env file w)))
          = map content_hash (audio_files w)"
    unfolding processUpload_ledger by (rule if_split [THEN iffD2]) blast
  then show ?thesis
  proof
    assume "map content_hash (audio_files (snd (processUpload sha256 env file w)))
          = map content_hash (audio_files w) @ [sha256 (content file)]"
    then have "set (map content_hash (audio_files (snd (processUpload sha256 env file w))))
          = set (map content_hash (audio_files w)) \<union> {sha256 (content file)}"
      by (simp only: set_append list.set)
    then show ?thesis
      by blast
  next
    assume "map content_hash (audio_files (snd (processUpload sha256 env file w)))
          = map content_hash (audio_files w)"
    then show ?thesis
      by (simp only: subset_refl)
  qed
qed

lemma processUpload_returned:
  assumes "fst (processUpload sha256 env file w) = Inr r"
  shows "sha256 (content file)
           \<in> set (map content_hash (audio_files (snd (processUpload sha256 env file w))))"
proof -
  from assms have ok: "stream_error env = None" "uploadError env = None"
    by (auto simp add: processUpload_result split: option.splits)
  show ?thesis
  proof (cases "sha256 (content file) \<in> set (map content_hash (audio_files w))")
    case True
    with processUpload_hashes [of w sha256 env "file"] show ?thesis
      by blast
  next
    case False
    with ok have "map content_hash (audio_files (snd (processUpload sha256 env file w)))
          = map content_hash (audio_files w) @ [sha256 (content file)]"
      by (simp only: processUpload_ledger simp_thms if_True)
    then have "set (map content_hash (audio_files (snd (processUpload sha256 env file w))))
          = set (map content_hash (audio_files w)) \<union> {sha256 (content file)}"
      by (simp only: set_append list.set)
    then show ?thesis
      by blast
  qed
qed

lemma processUpload_duplicate:
  assumes "sha256 (content file) \<in> set (map content_hash (audio_files w))"
    and "stream_error env = None" and "uploadError env = None"
  shows "fst (processUpload sha256 env file w) = Inr Duplicate"
  using assms by (simp add: processUpload_result)

lemma processUpload_same_bytes:
  assumes "content file2 = content file1"
  shows "fst (processUpload sha256 env file2 w) = fst (processUpload sha256 env file1 w)"
  using assms by (simp add: processUpload_result)

lemma uploadAudio_world:
  "snd (uploadAudio sha256 env req_file w) = w
   \<or> (\<exists>file. snd (uploadAudio sha256 env req_file w) = snd (processUpload sha256 env file w))"
proof (cases req_file)
  case None
  then show ?thesis
    by (simp add: uploadAudio_def)
next
  case (Some f)
  obtain r w' where run: "processUpload sha256 env f w = (r, w')"
    by (cases "processUpload sha256 env f w")
  show ?thesis
  proof (cases "isSupportedAudio (mimetype f)")
    case False
    with Some show ?thesis
      by (simp add: uploadAudio_def)
  next
    case True
    with Some run have "snd (uploadAudio sha256 env req_file w) = w'"
      by (simp add: uploadAudio_def split: sum.splits upload_result.splits)
    with run have "snd (uploadAudio sha256 env req_file w) = snd (processUpload sha256 env f w)"
      by simp
    then show ?thesis
      by blast
  qed
qed

lemma uploadAudio_hashes:
  "set (map content_hash (audio_files w))
     \<subseteq> set (map content_hash (audio_files (snd (uploadAudio sha256 env req_file w))))"
  using uploadAudio_world [of sha256 env req_file w] processUpload_hashes [of w sha256 env]
  by (elim disjE exE) (simp_all only: subset_refl)

lemma perform_hashes:
  "set (map content_hash (audio_files w))
     \<subseteq> set (map content_hash (audio_files (perform sha256 a w)))"
proof (cases a)
  case (Upload env req_file)
  then show ?thesis
    using uploadAudio_hashes [of w sha256 env req_file] by simp
qed simp_all

lemma run_actions_hashes:
  "h \<in> set (map content_hash (audio_files w)) \<Longrightarrow>
   h \<in> set (map content_hash (audio_files (run_actions sha256 acts w)))"
proof (induction acts arbitrary: w)
  case Nil
  then show ?case by (simp add: run_actions_def)
next
  case (Cons a acts)
  from Cons.prems perform_hashes [of w sha256 a]
  have "h \<in> set (map content_hash (audio_files (perform sha256 a w)))"
    by blast
  then have "h \<in> set (map content_hash (audio_files (run_actions sha256 acts (perform sha256 a w))))"
    by (rule Cons.IH)
  then show ?case
    by (simp add: run_actions_def)
qed

text \<open>
  C10. Once a submission has returned (accepted or duplicate), every later submission of
  the same bytes that reaches the insert (its hashing and its upload to the temporary
  bucket succeed) returns the duplicate result and is answered with 409, whatever happened
  in between and whatever its file name, declared MIME type (from the allow-list) and
  size. More generally, in any state and for any behaviour of the collaborators, two files
  with the same bytes get the same result from \<open>processUpload\<close>.
\<close>

theorem admission_ignores_metadata:
  assumes same_bytes: "content later = content first"
    and first_returned: "fst (processUpload sha256 env1 first w0) = Inr r"
    and between: "w = run_actions sha256 acts (snd (processUpload sha256 env1 first w0))"
    and reaches_insert: "stream_error env2 = None" "uploadError env2 = None"
    and listed: "isSupportedAudio (mimetype later)"
  shows "fst (processUpload sha256 env2 later w) = Inr Duplicate
         \<and> fst (uploadAudio sha256 env2 (Some later) w)
             = Json 409 (DuplicateBody ''Exact duplicate detected'')
         \<and> (\<forall>env w'. fst (processUpload sha256 env later w') = fst (processUpload sha256 env first w'))"
proof -
  from first_returned
  have "sha256 (content first)
          \<in> set (map content_hash (audio_files (snd (processUpload sha256 env1 first w0))))"
    by (rule processUpload_returned)
  then have "sha256 (content first) \<in> set (map content_hash (audio_files w))"
    unfolding between by (rule run_actions_hashes)
  with same_bytes have "sha256 (content later) \<in> set (map content_hash (audio_files w))"
    by simp
  then have dup: "fst (processUpload sha256 env2 later w) = Inr Duplicate"
    using reaches_insert by (rule processUpload_duplicate)
  then have "fst (uploadAudio sha256 env2 (Some later) w)
             = Json 409 (DuplicateBody ''Exact duplicate detected'')"
    using listed by (cases "processUpload sha256 env2 later w") (simp add: uploadAudio_def)
  moreover have "\<forall>env w'. fst (processUpload sha256 env later w')
                   = fst (processUpload sha256 env first w')"
    using processUpload_same_bytes [OF same_bytes] by blast
  ultimately show ?thesis
    using dup by blast
qed

theorem admission_ignores_metadata_witness:
  "content song_x_renamed = content song_x
   \<and> fst (processUpload digest_stub (all_succeed ''u1'') song_x boot) = Inr (Accepted 0)
   \<and> isSupportedAudio (mimetype song_x_renamed)
   \<and> fst (processUpload digest_stub (all_succeed ''u3'') song_x_renamed
        (run_actions digest_stub [Upload (all_succeed ''u2'') (Some song_y)]
           (snd (processUpload digest_stub (all_succeed ''u1'') song_x boot))))
       = Inr Duplicate
   \<and> fst (uploadAudio digest_stub (all_succeed ''u3'') (Some song_x_renamed)
        (run_actions digest_stub [Upload (all_succeed ''u2'') (Some song_y)]
           (snd (processUpload digest_stub (all_succeed ''u1'') song_x boot))))
       = Json 409 (DuplicateBody ''Exact duplicate detected'')"
proof -
  have same: "content song_x_renamed = content song_x"
    by (simp add: song_x_renamed_def song_x_def)
  have returned: "fst (processUpload digest_stub (all_succeed ''u1'') song_x boot) = Inr (Accepted 0)"
    by code_simp
  have listed: "isSupportedAudio (mimetype song_x_renamed)"
    by code_simp
  have reaches: "stream_error (all_succeed ''u3'') = None" "uploadError (all_succeed ''u3'') = None"
    by (simp_all add: all_succeed_def)
  from admission_ignores_metadata [OF same returned refl reaches listed,
      of "[Upload (all_succeed ''u2'') (Some song_y)]"]
    same returned listed
  show ?thesis
    by blast
qed

section \<open>Concurrent admission\<close>

text \<open>
  A call that runs alone takes at most six steps, and they do what \<open>processUpload\<close> does.
\<close>

lemma steps_agree_with_processUpload:
  "run_schedule sha256 [0, 0, 0, 0, 0, 0] (w, [start_call env f])
     = (snd (processUpload sha256 env f w),
        [\<lparr>call_env = env, call_file = f,
          call_stage = Finished (fst (processUpload sha256 env f w))\<rparr>])"
proof (cases "stream_error env")
  case (Some msg)
  then show ?thesis
    by (simp add: start_call_def step_def processUpload_def computeFileHash_def)
next
  case no_stream_error: None
  show ?thesis
  proof (cases "uploadError env")
    case (Some msg)
    with no_stream_error show ?thesis
      by (simp add: start_call_def step_def processUpload_def computeFileHash_def)
  next
    case no_upload_error: None
    show ?thesis
    proof (cases "sha256 (content f) \<in> set (map content_hash (audio_files w))")
      case True
      with no_stream_error no_upload_error show ?thesis
        by (cases "deleteError env")
           (simp_all add: start_call_def step_def processUpload_def computeFileHash_def
              insert_audio_file_def Let_def)
    next
      case False
      with no_stream_error no_upload_error show ?thesis
        by (cases "moveError env")
           (simp_all add: start_call_def step_def processUpload_def computeFileHash_def
              insert_audio_file_def Let_def)
    qed
  qed
qed

subsection \<open>The invariant of interleaved runs\<close>



lemma rows_with_hash_simps [simp]:
  "rows_with_hash d (temp_upload n b w) = rows_with_hash d w"
  "rows_with_hash d (temp_remove n w) = rows_with_hash d w"
  "rows_with_hash d (temp_move n dst b w) = rows_with_hash d w"
  "rows_with_hash d (insert_upload_attempt h dup w) = rows_with_hash d w"
  "rows_with_hash d (queue_add a f w) = rows_with_hash d w"
  by (simp_all add: rows_with_hash_def)














end
